theory Spec2Isabelle
  imports Complex_Main
begin

section \<open>Python values\<close>

text \<open>
  A Python \<open>str\<close> is a sequence of Unicode code points; it is modelled as the list of
  those code points, so that slicing and \<open>len\<close> count what Python counts and the
  regular expressions see the characters Python sees. \<open>str\<close> turns an ASCII literal
  into that representation.  Timestamps (\<open>time.time()\<close>) and durations are Python floats;
  they are modelled as reals, so rounding of float arithmetic is not part of the model.
\<close>

type_synonym pystr = "nat list"

definition str :: "string \<Rightarrow> pystr" where
  "str s = map of_char s"

text \<open>\<open>s[:k]\<close> for a Python int \<open>k\<close>: a negative bound counts from the end.\<close>

definition slice_to :: "'a list \<Rightarrow> int \<Rightarrow> 'a list" where
  "slice_to xs k =
     (if 0 \<le> k then take (nat k) xs else take (nat (int (length xs) + k)) xs)"

text \<open>
  \<open>str.isspace\<close> on one character, which is also what \<open>\s\<close> matches in a \<open>str\<close>
  pattern and what \<open>str.strip()\<close> removes: the ASCII controls 9-13 and 28-31, the
  space, and the Unicode separators.
\<close>

definition isspace :: "nat \<Rightarrow> bool" where
  "isspace c \<longleftrightarrow>
     (9 \<le> c \<and> c \<le> 13) \<or> (28 \<le> c \<and> c \<le> 32) \<or> c = 0x85 \<or> c = 0xA0 \<or> c = 0x1680 \<or>
     (0x2000 \<le> c \<and> c \<le> 0x200A) \<or> c = 0x2028 \<or> c = 0x2029 \<or> c = 0x202F \<or>
     c = 0x205F \<or> c = 0x3000"

definition strip :: "pystr \<Rightarrow> pystr" where
  "strip s = rev (dropWhile isspace (rev (dropWhile isspace s)))"

text \<open>\<open>sub in s\<close> on strings.\<close>

fun startswith :: "pystr \<Rightarrow> pystr \<Rightarrow> bool" where
  "startswith s [] = True"
| "startswith [] (p # ps) = False"
| "startswith (c # cs) (p # ps) = (c = p \<and> startswith cs ps)"

fun contains :: "pystr \<Rightarrow> pystr \<Rightarrow> bool" where
  "contains sub [] = (sub = [])"
| "contains sub (c # cs) = (startswith (c # cs) sub \<or> contains sub cs)"

text \<open>\<open>str(n)\<close> for a non-negative int, and for any int.\<close>

fun digits :: "nat \<Rightarrow> pystr" where
  "digits n = (if n < 10 then [48 + n] else digits (n div 10) @ [48 + n mod 10])"

declare digits.simps [simp del]

definition str_int :: "int \<Rightarrow> pystr" where
  "str_int i = (if i < 0 then 45 # digits (nat (- i)) else digits (nat i))"

section \<open>Configuration constants (fastapi-ghosttube-v-3.py)\<close>

definition MAX_CONCURRENT_DOWNLOADS :: int where "MAX_CONCURRENT_DOWNLOADS = 3"
definition MAX_RETRIES :: nat where "MAX_RETRIES = 3"
definition INITIAL_BACKOFF :: int where "INITIAL_BACKOFF = 2"
definition MAX_BACKOFF :: int where "MAX_BACKOFF = 60"
definition RATE_LIMIT_THRESHOLD :: int where "RATE_LIMIT_THRESHOLD = 3"

section \<open>sanitize_name\<close>


text \<open>\<open>re.sub(r'\s+', '_', s)\<close>: every maximal run of whitespace becomes one underscore.\<close>

function sub_ws :: "pystr \<Rightarrow> pystr" where
  "sub_ws [] = []"
| "sub_ws (c # cs) =
     (if isspace c then 95 # sub_ws (dropWhile isspace cs) else c # sub_ws cs)"
  by pat_completeness auto
termination
  by (relation "measure length") (auto simp: length_dropWhile_le less_Suc_eq_le)


section \<open>RateLimitTracker\<close>

record RateLimitTracker =
  consecutive_429s :: int
  last_429_time :: real
  backoff_until :: real
  ip_rotation_needed :: bool

text \<open>The tracker as the dataclass defaults build it (\<open>rate_limiter = RateLimitTracker()\<close>).\<close>

definition new_tracker :: RateLimitTracker where
  "new_tracker = \<lparr>consecutive_429s = 0, last_429_time = 0, backoff_until = 0,
                  ip_rotation_needed = False\<rparr>"

text \<open>
  \<open>2 ** e\<close> for a Python int \<open>e\<close>: an int power when \<open>e\<close> is not negative, the float
  reciprocal otherwise.
\<close>

definition pow2 :: "int \<Rightarrow> real" where
  "pow2 e = (if 0 \<le> e then 2 ^ nat e else 1 / 2 ^ nat (- e))"

text \<open>
  \<open>record_429\<close> reads the clock twice: \<open>t_stamp\<close> is the value of the first
  \<open>time.time()\<close> (stored in \<open>last_429_time\<close>), \<open>t_backoff\<close> that of the second
  (added to the backoff).
\<close>

definition record_429 :: "real \<Rightarrow> real \<Rightarrow> RateLimitTracker \<Rightarrow> RateLimitTracker" where
  "record_429 t_stamp t_backoff s =
     (let s1 = s\<lparr>consecutive_429s := consecutive_429s s + 1\<rparr>;
          s2 = s1\<lparr>last_429_time := t_stamp\<rparr>;
          s3 = (if consecutive_429s s2 \<ge> RATE_LIMIT_THRESHOLD
                then s2\<lparr>ip_rotation_needed := True\<rparr> else s2);
          backoff = min (of_int INITIAL_BACKOFF * pow2 (consecutive_429s s3 - 1))
                        (of_int MAX_BACKOFF)
      in s3\<lparr>backoff_until := t_backoff + backoff\<rparr>)"

definition record_success :: "RateLimitTracker \<Rightarrow> RateLimitTracker" where
  "record_success s = s\<lparr>consecutive_429s := 0, ip_rotation_needed := False\<rparr>"

text \<open>
  \<open>should_wait\<close> also reads the clock twice when the deadline is ahead: \<open>t_check\<close> in
  the comparison, \<open>t_calc\<close> in the subtraction.
\<close>

definition should_wait :: "real \<Rightarrow> real \<Rightarrow> RateLimitTracker \<Rightarrow> bool \<times> real" where
  "should_wait t_check t_calc s =
     (if t_check < backoff_until s then (True, backoff_until s - t_calc) else (False, 0))"

section \<open>download_video\<close>

text \<open>
  Exceptions that leave a function are values: the class and \<open>str(e)\<close>.
  \<open>PyException\<close> is a plain \<open>Exception(msg)\<close>, \<open>OSError\<close> stands for a failure of the
  file system.
\<close>

datatype py_error =
    ValueError pystr
  | UnicodeDecodeError pystr
  | PyException pystr
  | OSError pystr

fun str_of :: "py_error \<Rightarrow> pystr" where
  "str_of (ValueError m) = m"
| "str_of (UnicodeDecodeError m) = m"
| "str_of (PyException m) = m"
| "str_of (OSError m) = m"

text \<open>\<open>DownloadResult.status\<close> is a string with the three values of the source's comment.\<close>

datatype item_status = Success | Failed | Skipped

record DownloadResult =
  url :: pystr
  title :: pystr
  status :: item_status
  error :: "pystr option"
  duration :: real
  size_mb :: real
  retries :: int
  ip :: pystr
  timestamp :: pystr

text \<open>
  What one \<open>subprocess.run(..., check=True, capture_output=True, timeout=...)\<close> (with the
  \<open>mkdir\<close> before it) does: it returns, or it raises \<open>CalledProcessError\<close>,
  \<open>TimeoutExpired\<close> or some other exception. For \<open>CalledProcessError\<close> the handler
  computes \<open>error_msg = e.stderr.decode() if e.stderr else str(e)\<close>: \<open>Text m\<close> is that
  string, \<open>Undecodable m\<close> the case where \<open>decode\<close> raises \<open>UnicodeDecodeError\<close> (with
  text \<open>m\<close>).
\<close>

datatype stderr_text = Text pystr | Undecodable pystr

datatype proc_outcome =
    Exit0
  | CalledProcessError stderr_text
  | TimeoutExpired
  | OtherException pystr

text \<open>
  The environment of one pass through the loop body: every clock read by its place in
  the code, the outcome of each of the three tool invocations, and the values that
  \<open>get_file_size_mb\<close>, \<open>get_tor_ip\<close> and \<open>datetime.now().isoformat()\<close> give when a
  result is built.
\<close>

record attempt_env =
  now_wait_check :: real
  now_wait_calc :: real
  run_audio :: proc_outcome
  run_video :: proc_outcome
  run_transcripts :: proc_outcome
  now_429_stamp :: real
  now_429_backoff :: real
  now_return :: real
  measured_size_mb :: real
  tor_ip :: pystr
  stamp :: pystr

text \<open>
  The environment of one call: \<open>get_video_title(url)\<close>, the first clock read, the
  environment of each attempt by its index, and the clock and date of the return after
  the loop.
\<close>

record video_env =
  video_title :: pystr
  now_start :: real
  attempt_env_of :: "nat \<Rightarrow> attempt_env"
  now_end :: real
  stamp_end :: pystr

text \<open>
  The arguments of \<open>download_video\<close> that decide what it does (\<open>audio_format\<close> and
  \<open>subdir\<close> only shape the command lines).
\<close>

record dl_args =
  arg_url :: pystr
  arg_audio :: bool
  arg_video :: bool
  arg_transcripts :: bool

text \<open>
  The state the loop threads: the shared rate limiter, the local \<open>retries\<close>, and two
  observations, the arguments of every \<open>time.sleep\<close> in order and the number of times
  the \<open>try\<close> block was entered.
\<close>

record dl_state =
  limiter :: RateLimitTracker
  n_retries :: int
  slept :: "real list"
  tries :: nat

datatype step = Return "py_error + DownloadResult" | Continue

text \<open>The three substring tests of the \<open>CalledProcessError\<close> handler.\<close>

definition is_429 :: "pystr \<Rightarrow> bool" where
  "is_429 error_msg \<longleftrightarrow>
     contains (str ''429'') error_msg \<or> contains (str ''Too Many Requests'') error_msg"

definition is_unavailable :: "pystr \<Rightarrow> bool" where
  "is_unavailable error_msg \<longleftrightarrow>
     contains (str ''Video unavailable'') error_msg \<or> contains (str ''not available'') error_msg"

definition is_restricted :: "pystr \<Rightarrow> bool" where
  "is_restricted error_msg \<longleftrightarrow>
     contains (str ''age-restricted'') error_msg \<or> contains (str ''Sign in'') error_msg"

text \<open>A failed \<open>DownloadResult\<close>; \<open>size_mb\<close> keeps its default, \<open>ip\<close> is given.\<close>

definition failed_result ::
  "dl_args \<Rightarrow> video_env \<Rightarrow> pystr \<Rightarrow> real \<Rightarrow> int \<Rightarrow> pystr \<Rightarrow> pystr \<Rightarrow> DownloadResult" where
  "failed_result a e msg now r ip_val ts =
     \<lparr>url = arg_url a, title = video_title e, status = Failed, error = Some msg,
      duration = now - now_start e, size_mb = 0, retries = r, ip = ip_val, timestamp = ts\<rparr>"

text \<open>\<open>time.sleep(INITIAL_BACKOFF * (2 ** attempt))\<close>.\<close>

definition backoff_sleep :: "nat \<Rightarrow> real" where
  "backoff_sleep k = of_int INITIAL_BACKOFF * 2 ^ k"

text \<open>
  The head of the loop body: \<open>should_wait\<close>, then \<open>time.sleep(wait_time)\<close>, which raises
  \<open>ValueError\<close> on a negative argument; that is outside the \<open>try\<close>, so it leaves
  \<open>download_video\<close>.
\<close>

definition rate_limit_wait :: "attempt_env \<Rightarrow> dl_state \<Rightarrow> py_error + dl_state" where
  "rate_limit_wait ae st =
     (case should_wait (now_wait_check ae) (now_wait_calc ae) (limiter st) of
        (sw, wait_time) \<Rightarrow>
          if sw then
            (if wait_time < 0 then Inl (ValueError (str ''sleep length must be non-negative''))
             else Inr (st\<lparr>slept := slept st @ [wait_time]\<rparr>))
          else Inr st)"

text \<open>
  The \<open>try\<close> block up to \<open>record_success\<close>: the requested invocations in order, the first
  exception leaves the block. What follows \<open>record_success\<close> inside the block (summing
  the file sizes, \<open>get_tor_ip\<close>) is taken not to raise: both helpers catch their own
  exceptions.
\<close>

definition try_block :: "dl_args \<Rightarrow> attempt_env \<Rightarrow> proc_outcome" where
  "try_block a ae =
     (if arg_audio a \<and> run_audio ae \<noteq> Exit0 then run_audio ae
      else if arg_video a \<and> run_video ae \<noteq> Exit0 then run_video ae
      else if arg_transcripts a \<and> run_transcripts ae \<noteq> Exit0 then run_transcripts ae
      else Exit0)"

definition on_success :: "dl_args \<Rightarrow> video_env \<Rightarrow> attempt_env \<Rightarrow> dl_state \<Rightarrow> step \<times> dl_state" where
  "on_success a e ae st =
     (let st1 = st\<lparr>limiter := record_success (limiter st)\<rparr>
      in (Return (Inr \<lparr>url = arg_url a, title = video_title e, status = Success, error = None,
                       duration = now_return ae - now_start e,
                       size_mb = (if arg_audio a then measured_size_mb ae else 0),
                       retries = n_retries st1, ip = tor_ip ae, timestamp = stamp ae\<rparr>),
          st1))"

text \<open>
  The \<open>CalledProcessError\<close> handler after the 429 block: the two terminal tests, then
  the retry, then the failure with the truncated message.
\<close>

definition after_429_block ::
  "dl_args \<Rightarrow> video_env \<Rightarrow> nat \<Rightarrow> attempt_env \<Rightarrow> pystr \<Rightarrow> dl_state \<Rightarrow> step \<times> dl_state" where
  "after_429_block a e k ae error_msg st =
     (if is_unavailable error_msg then
        (Return (Inr (failed_result a e (str ''Video unavailable'') (now_return ae)
                        (n_retries st) [] (stamp ae))), st)
      else if is_restricted error_msg then
        (Return (Inr (failed_result a e (str ''Age-restricted (need cookies)'') (now_return ae)
                        (n_retries st) [] (stamp ae))), st)
      else if k < MAX_RETRIES - 1 then
        (Continue, st\<lparr>slept := slept st @ [backoff_sleep k]\<rparr>)
      else
        (Return (Inr (failed_result a e (slice_to error_msg 150) (now_return ae)
                        (n_retries st) [] (stamp ae))), st))"

definition on_called_process_error ::
  "dl_args \<Rightarrow> video_env \<Rightarrow> nat \<Rightarrow> attempt_env \<Rightarrow> stderr_text \<Rightarrow> dl_state \<Rightarrow> step \<times> dl_state" where
  "on_called_process_error a e k ae txt st =
     (case txt of
        Undecodable m \<Rightarrow> (Return (Inl (UnicodeDecodeError m)), st)
      | Text error_msg \<Rightarrow>
          let st1 = st\<lparr>n_retries := n_retries st + 1\<rparr> in
          if is_429 error_msg then
            (let st2 = st1\<lparr>limiter :=
                         record_429 (now_429_stamp ae) (now_429_backoff ae) (limiter st1)\<rparr>
             in if ip_rotation_needed (limiter st2) then
                  (Return (Inr (failed_result a e (str ''Rate limited - IP rotation needed'')
                                  (now_return ae) (n_retries st2) (tor_ip ae) (stamp ae))), st2)
                else if k < MAX_RETRIES - 1 then
                  (Continue, st2\<lparr>slept := slept st2 @ [backoff_sleep k]\<rparr>)
                else after_429_block a e k ae error_msg st2)
          else after_429_block a e k ae error_msg st1)"

definition on_timeout ::
  "dl_args \<Rightarrow> video_env \<Rightarrow> nat \<Rightarrow> attempt_env \<Rightarrow> dl_state \<Rightarrow> step \<times> dl_state" where
  "on_timeout a e k ae st =
     (let st1 = st\<lparr>n_retries := n_retries st + 1\<rparr>
      in if k < MAX_RETRIES - 1 then (Continue, st1\<lparr>slept := slept st1 @ [backoff_sleep k]\<rparr>)
         else (Return (Inr (failed_result a e
                 (str ''Timeout - video too large or connection slow'') (now_return ae)
                 (n_retries st1) [] (stamp ae))), st1))"

definition on_exception ::
  "dl_args \<Rightarrow> video_env \<Rightarrow> nat \<Rightarrow> attempt_env \<Rightarrow> pystr \<Rightarrow> dl_state \<Rightarrow> step \<times> dl_state" where
  "on_exception a e k ae msg st =
     (let st1 = st\<lparr>n_retries := n_retries st + 1\<rparr>
      in if k < MAX_RETRIES - 1 then (Continue, st1\<lparr>slept := slept st1 @ [backoff_sleep k]\<rparr>)
         else (Return (Inr (failed_result a e (slice_to msg 150) (now_return ae)
                 (n_retries st1) [] (stamp ae))), st1))"

text \<open>One pass through the body of \<open>for attempt in range(MAX_RETRIES)\<close>.\<close>

definition attempt_body :: "dl_args \<Rightarrow> video_env \<Rightarrow> nat \<Rightarrow> dl_state \<Rightarrow> step \<times> dl_state" where
  "attempt_body a e k st =
     (let ae = attempt_env_of e k in
      case rate_limit_wait ae st of
        Inl err \<Rightarrow> (Return (Inl err), st)
      | Inr st0 \<Rightarrow>
          let st1 = st0\<lparr>tries := tries st0 + 1\<rparr> in
          case try_block a ae of
            Exit0 \<Rightarrow> on_success a e ae st1
          | CalledProcessError txt \<Rightarrow> on_called_process_error a e k ae txt st1
          | TimeoutExpired \<Rightarrow> on_timeout a e k ae st1
          | OtherException msg \<Rightarrow> on_exception a e k ae msg st1)"

text \<open>
  The loop over the attempt indices; the empty list is the code after the loop, the
  return with \<open>Max retries exceeded\<close>.
\<close>

fun for_attempts ::
  "dl_args \<Rightarrow> video_env \<Rightarrow> nat list \<Rightarrow> dl_state \<Rightarrow> (py_error + DownloadResult) \<times> dl_state" where
  "for_attempts a e [] st =
     (Inr (failed_result a e (str ''Max retries exceeded'') (now_end e) (n_retries st) []
             (stamp_end e)), st)"
| "for_attempts a e (k # ks) st =
     (case attempt_body a e k st of
        (Return r, st') \<Rightarrow> (r, st')
      | (Continue, st') \<Rightarrow> for_attempts a e ks st')"

definition initial_state :: "RateLimitTracker \<Rightarrow> dl_state" where
  "initial_state rl = \<lparr>limiter = rl, n_retries = 0, slept = [], tries = 0\<rparr>"

text \<open>
  \<open>download_video\<close>, run by one worker from the rate limiter state \<open>rl\<close>: the result or
  the exception that leaves it, and the final state.
\<close>

definition download_video ::
  "dl_args \<Rightarrow> video_env \<Rightarrow> RateLimitTracker \<Rightarrow> (py_error + DownloadResult) \<times> dl_state" where
  "download_video a e rl = for_attempts a e [0..<MAX_RETRIES] (initial_state rl)"

subsection \<open>Example inputs\<close>

text \<open>
  An attempt in which every invocation succeeds and the clock stands at 0, the default
  arguments of \<open>download_video\<close> (audio only), and a call whose audio invocation has the
  same outcome at every attempt.
\<close>

definition quiet :: attempt_env where
  "quiet = \<lparr>now_wait_check = 0, now_wait_calc = 0, run_audio = Exit0, run_video = Exit0,
            run_transcripts = Exit0, now_429_stamp = 0, now_429_backoff = 0, now_return = 0,
            measured_size_mb = 0, tor_ip = [], stamp = []\<rparr>"

definition audio_only :: dl_args where
  "audio_only = \<lparr>arg_url = str ''https://youtu.be/x'', arg_audio = True, arg_video = False,
                 arg_transcripts = False\<rparr>"

definition env_with :: "proc_outcome \<Rightarrow> video_env" where
  "env_with out = \<lparr>video_title = str ''Title'', now_start = 0,
                   attempt_env_of = (\<lambda>k. quiet\<lparr>run_audio := out\<rparr>), now_end = 0,
                   stamp_end = []\<rparr>"

text \<open>A rate limiter that has seen two throttles in a row.\<close>

definition throttled_twice :: RateLimitTracker where
  "throttled_twice = \<lparr>consecutive_429s = 2, last_429_time = 0, backoff_until = 0,
                       ip_rotation_needed = False\<rparr>"

section \<open>Jobs and the download worker (fastapi-ghosttube-v-3.py)\<close>

text \<open>\<open>JobState.status\<close> is a string with the four values of the source's comment.\<close>

datatype job_status = Queued | Downloading | Complete | JobFailed

record JobState =
  job_id :: pystr
  query :: pystr
  job_status :: job_status
  progress :: int
  message :: pystr
  total_videos :: int
  completed_videos :: int
  failed_videos :: int
  start_time :: real
  results :: "DownloadResult list"

text \<open>
  \<open>JobState(job_id=job_id, query=req.query, status='queued')\<close>: the other fields take the
  dataclass defaults, \<open>start_time\<close> the clock.
\<close>

definition new_job :: "pystr \<Rightarrow> pystr \<Rightarrow> real \<Rightarrow> JobState" where
  "new_job jid q now =
     \<lparr>job_id = jid, query = q, job_status = Queued, progress = 0, message = [],
      total_videos = 0, completed_videos = 0, failed_videos = 0, start_time = now,
      results = []\<rparr>"

text \<open>
  \<open>DownloadRequest\<close> (the \<open>format\<close> field only reaches the command line). The request
  model validates \<open>query\<close>, \<open>max_results\<close> and \<open>concurrent_downloads\<close>.
\<close>

record DownloadRequest =
  req_query :: pystr
  req_audio :: bool
  req_video :: bool
  req_transcripts :: bool
  req_max_results :: int
  req_concurrent_downloads :: int
  req_is_url :: bool
  req_urls :: "pystr list option"

definition valid_request :: "DownloadRequest \<Rightarrow> bool" where
  "valid_request req \<longleftrightarrow>
     1 \<le> length (req_query req) \<and> length (req_query req) \<le> 500 \<and>
     1 \<le> req_max_results req \<and> req_max_results req \<le> 100 \<and>
     1 \<le> req_concurrent_downloads req \<and> req_concurrent_downloads req \<le> 10"

text \<open>
  \<open>search_youtube\<close>. What each of the four lookups gives is the environment:
  \<open>Some urls\<close> when it returns, \<open>None\<close> when it raises. The loop takes the first
  non-empty answer, cut to \<open>max_results\<close>, and raises when there is none.
\<close>

record search_env =
  via_ytdlp :: "pystr list option"
  via_duckduckgo :: "pystr list option"
  via_youtube_direct :: "pystr list option"
  via_bing :: "pystr list option"

fun try_methods :: "pystr list option list \<Rightarrow> int \<Rightarrow> py_error + pystr list" where
  "try_methods [] max_results = Inl (PyException (str ''All search methods failed''))"
| "try_methods (m # ms) max_results =
     (case m of
        None \<Rightarrow> try_methods ms max_results
      | Some found \<Rightarrow>
          if found \<noteq> [] then Inr (slice_to found max_results)
          else try_methods ms max_results)"

definition search_youtube :: "search_env \<Rightarrow> int \<Rightarrow> py_error + pystr list" where
  "search_youtube se max_results =
     try_methods [via_ytdlp se, via_duckduckgo se, via_youtube_direct se, via_bing se]
       max_results"

text \<open>
  The environment of one run of the worker. The pool's scheduling is not modelled: the
  loop over \<open>as_completed(futures)\<close> receives, for \<open>k = 0, 1, ...\<close>, what
  \<open>future.result()\<close> gives for the \<open>k\<close>-th future to complete (a result, or the exception
  that left \<open>download_video\<close>), the value of \<open>rate_limiter.ip_rotation_needed\<close> it reads
  after that, and whether \<open>rotate_tor()\<close> succeeds. \<open>percent c n\<close> is the value of
  \<open>int((c / n) * 100)\<close> in float arithmetic, \<open>log_failure\<close> the exception raised while
  the log file is written, if any.
\<close>

record worker_env =
  search :: search_env
  future_result :: "nat \<Rightarrow> py_error + DownloadResult"
  rotation_flag :: "nat \<Rightarrow> bool"
  rotate_tor :: "nat \<Rightarrow> bool"
  percent :: "int \<Rightarrow> int \<Rightarrow> int"
  log_failure :: "py_error option"
  now_log :: real

text \<open>
  The messages built with f-strings; 0x2713 and 0x2717 are the check mark and the cross.
\<close>

definition msg_downloading_n :: "nat \<Rightarrow> pystr" where
  "msg_downloading_n n = str ''Downloading '' @ digits n @ str '' video(s)...''"

definition msg_downloaded :: "int \<Rightarrow> nat \<Rightarrow> int \<Rightarrow> int \<Rightarrow> pystr" where
  "msg_downloaded c n ok bad =
     str ''Downloaded '' @ str_int c @ str ''/'' @ digits n @ str '' ('' @ [0x2713] @
     str_int ok @ str '' '' @ [0x2717] @ str_int bad @ str '')''"

definition msg_complete :: "int \<Rightarrow> int \<Rightarrow> pystr" where
  "msg_complete ok bad =
     str ''Complete! '' @ [0x2713] @ str_int ok @ str '' successful, '' @ [0x2717] @
     str_int bad @ str '' failed''"

definition msg_error :: "py_error \<Rightarrow> pystr" where
  "msg_error e = str ''Error: '' @ slice_to (str_of e) 100"

text \<open>
  The resolution of the request into URLs, with the message it leaves in the job; an
  exception comes with the job as it is then.
\<close>

definition resolve_query ::
  "worker_env \<Rightarrow> DownloadRequest \<Rightarrow> JobState \<Rightarrow> (py_error \<times> JobState) + (pystr list \<times> JobState)" where
  "resolve_query env req job =
     (if req_is_url req then
        Inr ([strip (req_query req)], job\<lparr>message := str ''Downloading video...''\<rparr>)
      else
        (let job1 = job\<lparr>message := str ''Searching for videos...''\<rparr>
         in case search_youtube (search env) (req_max_results req) of
              Inl e \<Rightarrow> Inl (e, job1)
            | Inr rs \<Rightarrow> Inr (rs, job1)))"

definition resolve ::
  "worker_env \<Rightarrow> DownloadRequest \<Rightarrow> JobState \<Rightarrow> (py_error \<times> JobState) + (pystr list \<times> JobState)" where
  "resolve env req job =
     (case req_urls req of
        None \<Rightarrow> resolve_query env req job
      | Some us \<Rightarrow>
          if us \<noteq> [] then Inr (us, job\<lparr>message := msg_downloading_n (length us)\<rparr>)
          else resolve_query env req job)"

text \<open>
  The state of the loop over the completed futures: the job, the local \<open>completed\<close>, and
  an observation, the indices at which the worker cleared the rotation flag.
\<close>

record collect_state =
  cs_job :: JobState
  cs_completed :: int
  cs_resets :: "nat list"

text \<open>One pass through the body of \<open>for future in as_completed(futures)\<close>.\<close>

definition item_update ::
  "worker_env \<Rightarrow> nat \<Rightarrow> nat \<Rightarrow> collect_state \<Rightarrow> (py_error \<times> collect_state) + collect_state" where
  "item_update env n k st =
     (case future_result env k of
        Inl e \<Rightarrow> Inl (e, st)
      | Inr result \<Rightarrow>
          let j1 = (cs_job st)\<lparr>results := results (cs_job st) @ [result]\<rparr>;
              j2 = (if status result = Success
                    then j1\<lparr>completed_videos := completed_videos j1 + 1\<rparr>
                    else if status result = Failed
                    then j1\<lparr>failed_videos := failed_videos j1 + 1\<rparr>
                    else j1);
              completed = cs_completed st + 1;
              j3 = j2\<lparr>progress := percent env completed (int n)\<rparr>;
              j4 = j3\<lparr>message := msg_downloaded completed n (completed_videos j3)
                                    (failed_videos j3)\<rparr>
          in if rotation_flag env k then
               Inr \<lparr>cs_job = j4\<lparr>message := str ''Rotating IP due to rate limit...''\<rparr>,
                    cs_completed = completed,
                    cs_resets = (if rotate_tor env k then cs_resets st @ [k] else cs_resets st)\<rparr>
             else Inr \<lparr>cs_job = j4, cs_completed = completed, cs_resets = cs_resets st\<rparr>)"

fun as_completed_loop ::
  "worker_env \<Rightarrow> nat \<Rightarrow> nat list \<Rightarrow> collect_state \<Rightarrow> (py_error \<times> collect_state) + collect_state" where
  "as_completed_loop env n [] st = Inr st"
| "as_completed_loop env n (k # ks) st =
     (case item_update env n k st of
        Inl x \<Rightarrow> Inl x
      | Inr st' \<Rightarrow> as_completed_loop env n ks st')"


text \<open>
  What a run of the worker leaves: the job, the \<open>max_workers\<close> of the pool it started (if
  it started one), the URLs it submitted to it, the indices at which it cleared the
  rotation flag, and the log document it saved (job id, query, duration, results).
\<close>

record worker_out =
  out_job :: JobState
  pool_workers :: "int option"
  submitted :: "pystr list"
  flag_resets :: "nat list"
  saved_log :: "(pystr \<times> pystr \<times> real \<times> DownloadResult list) option"

text \<open>The handler \<open>except Exception as e\<close> around the whole worker.\<close>

definition on_fatal :: "py_error \<Rightarrow> JobState \<Rightarrow> JobState" where
  "on_fatal e job = job\<lparr>job_status := JobFailed, message := msg_error e\<rparr>"

definition loop_start :: "JobState \<Rightarrow> collect_state" where
  "loop_start job = \<lparr>cs_job = job, cs_completed = 0, cs_resets = []\<rparr>"

text \<open>
  \<open>_download_worker\<close>. \<open>ThreadPoolExecutor\<close> raises \<open>ValueError\<close> for a \<open>max_workers\<close>
  that is not positive. \<open>sanitize_name(req.query)\<close> is computed first and passed to the
  downloads; it does not touch the job.
\<close>

definition download_worker :: "worker_env \<Rightarrow> DownloadRequest \<Rightarrow> JobState \<Rightarrow> worker_out" where
  "download_worker env req job0 =
     (let job = job0\<lparr>job_status := Downloading\<rparr> in
      case resolve env req job of
        Inl (e, j) \<Rightarrow>
          \<lparr>out_job = on_fatal e j, pool_workers = None, submitted = [], flag_resets = [],
           saved_log = None\<rparr>
      | Inr (rs, j) \<Rightarrow>
          let j1 = j\<lparr>total_videos := int (length rs)\<rparr> in
          if rs = [] then
            \<lparr>out_job = j1\<lparr>job_status := JobFailed, message := str ''No videos found''\<rparr>,
             pool_workers = None, submitted = [], flag_resets = [], saved_log = None\<rparr>
          else
            let w = min (req_concurrent_downloads req) MAX_CONCURRENT_DOWNLOADS in
            if w \<le> 0 then
              \<lparr>out_job = on_fatal (ValueError (str ''max_workers must be greater than 0'')) j1,
               pool_workers = None, submitted = [], flag_resets = [], saved_log = None\<rparr>
            else
              case as_completed_loop env (length rs) [0..<length rs] (loop_start j1) of
                Inl (e, st) \<Rightarrow>
                  \<lparr>out_job = on_fatal e (cs_job st), pool_workers = Some w, submitted = rs,
                   flag_resets = cs_resets st, saved_log = None\<rparr>
              | Inr st \<Rightarrow>
                  let j2 = (cs_job st)\<lparr>job_status := Complete\<rparr>;
                      j3 = j2\<lparr>progress := 100\<rparr>;
                      j4 = j3\<lparr>message := msg_complete (completed_videos j3) (failed_videos j3)\<rparr>
                  in case log_failure env of
                       Some e \<Rightarrow>
                         \<lparr>out_job = on_fatal e j4, pool_workers = Some w, submitted = rs,
                          flag_resets = cs_resets st, saved_log = None\<rparr>
                     | None \<Rightarrow>
                         \<lparr>out_job = j4, pool_workers = Some w, submitted = rs,
                          flag_resets = cs_resets st,
                          saved_log = Some (job_id j4, req_query req,
                                            now_log env - start_time j4, results j4)\<rparr>)"

subsection \<open>The endpoints\<close>

datatype http_error = HTTPException int pystr

text \<open>
  \<open>POST /api/download\<close>: the job registry is a dict from job id to \<open>JobState\<close>;
  \<open>new_id\<close> is the \<open>uuid4\<close> drawn, \<open>now\<close> the clock. The worker is scheduled as a
  background task, so the registry returned holds the queued job.
\<close>

definition api_download ::
  "(pystr \<rightharpoonup> JobState) \<Rightarrow> DownloadRequest \<Rightarrow> pystr \<Rightarrow> real
     \<Rightarrow> http_error + (pystr \<rightharpoonup> JobState)" where
  "api_download jobs req new_id now =
     (if \<not> (req_audio req \<or> req_video req \<or> req_transcripts req) then
        Inl (HTTPException 400 (str ''Select at least one: audio, video, transcripts''))
      else Inr (jobs(new_id \<mapsto> new_job new_id (req_query req) now)))"



section \<open>The job engine of GT-v4-fastapi.py\<close>

















section \<open>The executor\<close>

text \<open>
  \<open>concurrent.futures.ThreadPoolExecutor(max_workers=w)\<close> as the code relies on it: the
  submitted calls wait in a queue, a call is taken from the queue only while fewer than
  \<open>w\<close> calls are running, and a running call ends at some point. A state is the queue
  of waiting call indices and the list of running ones.
\<close>

inductive pool_run :: "int \<Rightarrow> nat \<Rightarrow> nat list \<times> nat list \<Rightarrow> bool" for w :: int and n :: nat where
  submitted_all: "pool_run w n ([0..<n], [])"
| start: "pool_run w n (i # waiting, running) \<Longrightarrow> int (length running) < w \<Longrightarrow>
          pool_run w n (waiting, i # running)"
| finish: "pool_run w n (waiting, running) \<Longrightarrow> i \<in> set running \<Longrightarrow>
           pool_run w n (waiting, remove1 i running)"

section \<open>Example runs\<close>

text \<open>
  A successful result, a search that finds nothing (every lookup returns the empty
  list), an environment in which every download succeeds and no rotation is asked for,
  a request with explicit URLs and a request that searches.
\<close>

definition ok_result :: DownloadResult where
  "ok_result = \<lparr>url = str ''https://youtu.be/x'', title = str ''Title'', status = Success,
                error = None, duration = 1, size_mb = 1, retries = 0, ip = [], timestamp = []\<rparr>"

definition no_hits :: search_env where
  "no_hits = \<lparr>via_ytdlp = Some [], via_duckduckgo = Some [], via_youtube_direct = Some [],
              via_bing = Some []\<rparr>"

definition calm_env :: worker_env where
  "calm_env = \<lparr>search = no_hits, future_result = (\<lambda>k. Inr ok_result),
               rotation_flag = (\<lambda>k. False), rotate_tor = (\<lambda>k. True),
               percent = (\<lambda>c n. 100 * c div n), log_failure = None, now_log = 0\<rparr>"


definition search_request :: DownloadRequest where
  "search_request = \<lparr>req_query = str ''q'', req_audio = True, req_video = False,
                     req_transcripts = False, req_max_results = 50,
                     req_concurrent_downloads = 3, req_is_url = False, req_urls = None\<rparr>"


section \<open>Properties of sanitize_name\<close>


lemma sub_ws_Nil_iff: "sub_ws s = [] \<longleftrightarrow> s = []"
  by (cases s) simp_all








section \<open>Properties of the rate limiter\<close>

text \<open>
  C2. \<open>record_429\<close> adds one to the consecutive count, stores the clock in
  \<open>last_429_time\<close>, raises the rotation flag as soon as the new count is at least 3 (and
  leaves it as it was below that), and sets the deadline to the clock plus
  \<open>min(2 * 2^(count - 1), 60)\<close> for the new count; \<open>record_success\<close> puts the count back
  to 0 and the flag to false.
\<close>

theorem rate_limiter_contract:
  "consecutive_429s (record_429 t1 t2 s) = consecutive_429s s + 1 \<and>
   last_429_time (record_429 t1 t2 s) = t1 \<and>
   (3 \<le> consecutive_429s (record_429 t1 t2 s) \<longrightarrow> ip_rotation_needed (record_429 t1 t2 s)) \<and>
   (consecutive_429s (record_429 t1 t2 s) < 3 \<longrightarrow>
      ip_rotation_needed (record_429 t1 t2 s) = ip_rotation_needed s) \<and>
   (0 \<le> consecutive_429s s \<longrightarrow>
      backoff_until (record_429 t1 t2 s) =
        t2 + min (2 * 2 ^ (nat (consecutive_429s (record_429 t1 t2 s)) - 1)) 60) \<and>
   consecutive_429s (record_success s) = 0 \<and>
   ip_rotation_needed (record_success s) = False"
proof -
  have "nat (consecutive_429s s + 1) - 1 = nat (consecutive_429s s)"
    if "0 \<le> consecutive_429s s"
    using that by simp
  then show ?thesis
    by (simp add: record_429_def record_success_def Let_def RATE_LIMIT_THRESHOLD_def
        INITIAL_BACKOFF_def MAX_BACKOFF_def pow2_def)
qed

theorem rate_limiter_contract_witness:
  "ip_rotation_needed (record_429 7 8 (record_429 4 5 (record_429 1 2 new_tracker))) \<and>
   \<not> ip_rotation_needed (record_429 4 5 (record_429 1 2 new_tracker)) \<and>
   backoff_until (record_429 7 8 (record_429 4 5 (record_429 1 2 new_tracker))) = 16 \<and>
   backoff_until (record_429 1 2 new_tracker) = 4"
proof -
  let ?s1 = "record_429 1 2 new_tracker"
  let ?s2 = "record_429 4 5 ?s1"
  have c0: "consecutive_429s new_tracker = 0" and f0: "\<not> ip_rotation_needed new_tracker"
    by (simp_all add: new_tracker_def)
  from rate_limiter_contract [of 1 2 new_tracker] c0 f0
  have s1: "consecutive_429s ?s1 = 1" "\<not> ip_rotation_needed ?s1" "backoff_until ?s1 = 4"
    by simp_all
  from rate_limiter_contract [of 4 5 ?s1] s1
  have s2: "consecutive_429s ?s2 = 2" "\<not> ip_rotation_needed ?s2"
    by simp_all
  from rate_limiter_contract [of 7 8 ?s2] s2
  have s3: "ip_rotation_needed (record_429 7 8 ?s2)" "backoff_until (record_429 7 8 ?s2) = 16"
    by simp_all
  from s1 s2 s3 show ?thesis by simp
qed

section \<open>Properties of the retry loop\<close>

lemma upt_retries: "[0..<MAX_RETRIES] = [0, 1, 2]"
  by (simp add: MAX_RETRIES_def upt_rec)

lemma rate_limit_wait_keeps:
  "rate_limit_wait ae st = Inr st0 \<Longrightarrow>
     limiter st0 = limiter st \<and> n_retries st0 = n_retries st \<and> tries st0 = tries st"
  by (auto simp: rate_limit_wait_def split: prod.splits if_splits)

lemma rate_limit_wait_idle:
  "\<not> now_wait_check ae < backoff_until (limiter st) \<Longrightarrow> rate_limit_wait ae st = Inr st"
  by (simp add: rate_limit_wait_def should_wait_def)

lemma body_terminal:
  assumes "try_block a (attempt_env_of e k) = CalledProcessError (Text m)"
    and "\<not> is_429 m" and "is_unavailable m \<or> is_restricted m"
    and "rate_limit_wait (attempt_env_of e k) st = Inr st0"
  shows "attempt_body a e k st =
     (Return (Inr (failed_result a e
        (if is_unavailable m then str ''Video unavailable''
         else str ''Age-restricted (need cookies)'')
        (now_return (attempt_env_of e k)) (n_retries st + 1) [] (stamp (attempt_env_of e k)))),
      st0\<lparr>tries := tries st0 + 1, n_retries := n_retries st0 + 1\<rparr>)"
  using assms rate_limit_wait_keeps [OF assms(4)]
  by (auto simp: attempt_body_def on_called_process_error_def after_429_block_def Let_def)

text \<open>
  C3 (as the code has it). An attempt whose diagnostic holds neither \<open>429\<close> nor
  \<open>Too Many Requests\<close> and is classified Unavailable or AccessRestricted ends the loop at
  once, at whatever index it happens: the result is Failed with the fixed message, no
  further attempt is made and no backoff sleep is added (the only sleep possible is the
  rate-limit wait before the attempt). Its \<open>retries\<close> field counts the failed attempt:
  in particular a first attempt reporting \<open>Video unavailable\<close>, with the limiter not in
  a backoff window, gives status Failed, error \<open>Video unavailable\<close>, one attempt, no
  sleep at all, and \<open>retries = 1\<close>.
\<close>

theorem terminal_failure_ends_loop:
  "(\<forall>st st0 ks.
      try_block a (attempt_env_of e k) = CalledProcessError (Text m) \<and> \<not> is_429 m \<and>
      (is_unavailable m \<or> is_restricted m) \<and>
      rate_limit_wait (attempt_env_of e k) st = Inr st0 \<longrightarrow>
      (\<exists>r. for_attempts a e (k # ks) st =
              (Inr r, st0\<lparr>tries := tries st + 1, n_retries := n_retries st + 1\<rparr>) \<and>
           status r = Failed \<and> retries r = n_retries st + 1 \<and>
           error r = Some (if is_unavailable m then str ''Video unavailable''
                           else str ''Age-restricted (need cookies)''))) \<and>
   (try_block a (attempt_env_of e 0) = CalledProcessError (Text m0) \<and> \<not> is_429 m0 \<and>
    is_unavailable m0 \<and> \<not> now_wait_check (attempt_env_of e 0) < backoff_until rl \<longrightarrow>
      (\<exists>r. download_video a e rl =
              (Inr r, \<lparr>limiter = rl, n_retries = 1, slept = [], tries = 1\<rparr>) \<and>
           status r = Failed \<and> retries r = 1 \<and> error r = Some (str ''Video unavailable'')))"
proof (intro conjI allI impI)
  fix st st0 ks
  assume h: "try_block a (attempt_env_of e k) = CalledProcessError (Text m) \<and> \<not> is_429 m \<and>
      (is_unavailable m \<or> is_restricted m) \<and>
      rate_limit_wait (attempt_env_of e k) st = Inr st0"
  then have keep: "tries st0 = tries st" "n_retries st0 = n_retries st"
    using rate_limit_wait_keeps by blast+
  from h have "attempt_body a e k st =
     (Return (Inr (failed_result a e
        (if is_unavailable m then str ''Video unavailable''
         else str ''Age-restricted (need cookies)'')
        (now_return (attempt_env_of e k)) (n_retries st + 1) [] (stamp (attempt_env_of e k)))),
      st0\<lparr>tries := tries st0 + 1, n_retries := n_retries st0 + 1\<rparr>)"
    by (intro body_terminal) auto
  with keep show "\<exists>r. for_attempts a e (k # ks) st =
              (Inr r, st0\<lparr>tries := tries st + 1, n_retries := n_retries st + 1\<rparr>) \<and>
           status r = Failed \<and> retries r = n_retries st + 1 \<and>
           error r = Some (if is_unavailable m then str ''Video unavailable''
                           else str ''Age-restricted (need cookies)'')"
    by (simp add: failed_result_def)
next
  assume h: "try_block a (attempt_env_of e 0) = CalledProcessError (Text m0) \<and> \<not> is_429 m0 \<and>
    is_unavailable m0 \<and> \<not> now_wait_check (attempt_env_of e 0) < backoff_until rl"
  then have w: "rate_limit_wait (attempt_env_of e 0) (initial_state rl) = Inr (initial_state rl)"
    by (intro rate_limit_wait_idle) (simp add: initial_state_def)
  from h w have "attempt_body a e 0 (initial_state rl) =
     (Return (Inr (failed_result a e (str ''Video unavailable'')
        (now_return (attempt_env_of e 0)) 1 [] (stamp (attempt_env_of e 0)))),
      \<lparr>limiter = rl, n_retries = 1, slept = [], tries = 1\<rparr>)"
    using body_terminal [of a e 0 m0 "initial_state rl" "initial_state rl"]
    by (simp add: initial_state_def)
  then show "\<exists>r. download_video a e rl =
              (Inr r, \<lparr>limiter = rl, n_retries = 1, slept = [], tries = 1\<rparr>) \<and>
           status r = Failed \<and> retries r = 1 \<and> error r = Some (str ''Video unavailable'')"
    by (simp add: download_video_def upt_retries failed_result_def)
qed

lemma unavailable_msg:
  "\<not> is_429 (str ''ERROR: Video unavailable'') \<and> is_unavailable (str ''ERROR: Video unavailable'')"
  by (simp add: is_429_def is_unavailable_def str_def)

lemma try_block_env_with: "out \<noteq> Exit0 \<Longrightarrow> try_block audio_only (attempt_env_of (env_with out) k) = out"
  by (simp add: try_block_def audio_only_def env_with_def quiet_def)

lemma idle_env_with: "\<not> now_wait_check (attempt_env_of (env_with out) k) < backoff_until new_tracker"
  by (simp add: env_with_def quiet_def new_tracker_def)

theorem terminal_failure_ends_loop_witness:
  "(\<exists>r. download_video audio_only
          (env_with (CalledProcessError (Text (str ''ERROR: Video unavailable'')))) new_tracker =
          (Inr r, \<lparr>limiter = new_tracker, n_retries = 1, slept = [], tries = 1\<rparr>) \<and>
       status r = Failed \<and> retries r = 1 \<and> error r = Some (str ''Video unavailable'')) \<and>
   (\<exists>r. for_attempts audio_only
          (env_with (CalledProcessError (Text (str ''ERROR: Video unavailable'')))) [2]
          \<lparr>limiter = new_tracker, n_retries = 2, slept = [2, 4], tries = 2\<rparr> =
          (Inr r, \<lparr>limiter = new_tracker, n_retries = 3, slept = [2, 4], tries = 3\<rparr>) \<and>
       status r = Failed \<and> retries r = 3 \<and> error r = Some (str ''Video unavailable''))"
proof -
  let ?e = "env_with (CalledProcessError (Text (str ''ERROR: Video unavailable'')))"
  let ?st = "\<lparr>limiter = new_tracker, n_retries = 2, slept = [2, 4], tries = 2\<rparr>"
  note t = terminal_failure_ends_loop [of audio_only ?e 2 "str ''ERROR: Video unavailable''"
      "str ''ERROR: Video unavailable''" new_tracker]
  have tb: "try_block audio_only (attempt_env_of ?e k) =
      CalledProcessError (Text (str ''ERROR: Video unavailable''))" for k
    by (rule try_block_env_with) simp
  have w: "rate_limit_wait (attempt_env_of ?e 2) ?st = Inr ?st"
    by (intro rate_limit_wait_idle) (simp add: env_with_def quiet_def new_tracker_def)
  have a: "\<exists>r. download_video audio_only ?e new_tracker =
          (Inr r, \<lparr>limiter = new_tracker, n_retries = 1, slept = [], tries = 1\<rparr>) \<and>
       status r = Failed \<and> retries r = 1 \<and> error r = Some (str ''Video unavailable'')"
    using t [THEN conjunct2] unavailable_msg tb idle_env_with by simp
  have p: "try_block audio_only (attempt_env_of ?e 2) =
        CalledProcessError (Text (str ''ERROR: Video unavailable'')) \<and>
      \<not> is_429 (str ''ERROR: Video unavailable'') \<and>
      (is_unavailable (str ''ERROR: Video unavailable'') \<or>
       is_restricted (str ''ERROR: Video unavailable'')) \<and>
      rate_limit_wait (attempt_env_of ?e 2) ?st = Inr ?st"
    using tb w unavailable_msg by simp
  from t [THEN conjunct1, rule_format, OF p, of "[]"] unavailable_msg
  have b: "\<exists>r. for_attempts audio_only ?e [2] ?st =
          (Inr r, \<lparr>limiter = new_tracker, n_retries = 3, slept = [2, 4], tries = 3\<rparr>) \<and>
       status r = Failed \<and> retries r = 3 \<and> error r = Some (str ''Video unavailable'')"
    by (simp del: for_attempts.simps)
  from a b show ?thesis by blast
qed

text \<open>
  C3 as stated fails: the handler adds one to \<open>retries\<close> before it classifies the
  message, so the result of a first attempt reporting \<open>Video unavailable\<close> does not have
  \<open>retries = 0\<close>.
\<close>

theorem unavailable_retries_counterexample:
  "\<not> (\<exists>r. fst (download_video audio_only
               (env_with (CalledProcessError (Text (str ''ERROR: Video unavailable''))))
               new_tracker) = Inr r \<and>
          status r = Failed \<and> retries r = 0 \<and> error r = Some (str ''Video unavailable''))"
proof -
  have "attempt_body audio_only
          (env_with (CalledProcessError (Text (str ''ERROR: Video unavailable'')))) 0
          (initial_state new_tracker) =
     (Return (Inr (failed_result audio_only
        (env_with (CalledProcessError (Text (str ''ERROR: Video unavailable''))))
        (str ''Video unavailable'') 0 1 [] [])),
      \<lparr>limiter = new_tracker, n_retries = 1, slept = [], tries = 1\<rparr>)"
    using body_terminal [of audio_only
        "env_with (CalledProcessError (Text (str ''ERROR: Video unavailable'')))" 0
        "str ''ERROR: Video unavailable''" "initial_state new_tracker" "initial_state new_tracker"]
      unavailable_msg try_block_env_with [of "CalledProcessError (Text (str ''ERROR: Video unavailable''))" 0]
      rate_limit_wait_idle [of "attempt_env_of (env_with (CalledProcessError (Text (str ''ERROR: Video unavailable'')))) 0" "initial_state new_tracker"]
    by (simp add: initial_state_def env_with_def quiet_def new_tracker_def)
  then show ?thesis
    by (simp add: download_video_def upt_retries failed_result_def)
qed

lemma body_429:
  assumes "try_block a (attempt_env_of e k) = CalledProcessError (Text m)"
    and "is_429 m"
    and "rate_limit_wait (attempt_env_of e k) st = Inr st0"
  shows "limiter (snd (attempt_body a e k st)) =
           record_429 (now_429_stamp (attempt_env_of e k)) (now_429_backoff (attempt_env_of e k))
             (limiter st)"
    and "ip_rotation_needed (record_429 (now_429_stamp (attempt_env_of e k))
            (now_429_backoff (attempt_env_of e k)) (limiter st)) \<Longrightarrow>
         attempt_body a e k st =
           (Return (Inr (failed_result a e (str ''Rate limited - IP rotation needed'')
                     (now_return (attempt_env_of e k)) (n_retries st + 1)
                     (tor_ip (attempt_env_of e k)) (stamp (attempt_env_of e k)))),
            st0\<lparr>tries := tries st + 1, n_retries := n_retries st + 1,
                limiter := record_429 (now_429_stamp (attempt_env_of e k))
                  (now_429_backoff (attempt_env_of e k)) (limiter st)\<rparr>)"
  using assms rate_limit_wait_keeps [OF assms(3)]
  by (auto simp: attempt_body_def on_called_process_error_def after_429_block_def Let_def)

text \<open>
  C4. An attempt whose diagnostic holds \<open>429\<close> or \<open>Too Many Requests\<close> records a
  throttle on the shared rate limiter (whatever the loop does next), and when the
  rotation flag is true after that, \<open>download_video\<close> returns at once: a Failed result
  with the error \<open>Rate limited - IP rotation needed\<close>, no backoff sleep and no further
  attempt.
\<close>

theorem rate_limited_records_and_stops:
  "try_block a (attempt_env_of e k) = CalledProcessError (Text m) \<and> is_429 m \<and>
   rate_limit_wait (attempt_env_of e k) st = Inr st0 \<longrightarrow>
     limiter (snd (attempt_body a e k st)) =
       record_429 (now_429_stamp (attempt_env_of e k)) (now_429_backoff (attempt_env_of e k))
         (limiter st) \<and>
     (ip_rotation_needed (record_429 (now_429_stamp (attempt_env_of e k))
         (now_429_backoff (attempt_env_of e k)) (limiter st)) \<longrightarrow>
        (\<exists>r st'. for_attempts a e (k # ks) st = (Inr r, st') \<and>
           status r = Failed \<and> error r = Some (str ''Rate limited - IP rotation needed'') \<and>
           tries st' = tries st + 1 \<and> slept st' = slept st0 \<and>
           limiter st' = record_429 (now_429_stamp (attempt_env_of e k))
             (now_429_backoff (attempt_env_of e k)) (limiter st)))"
proof (intro impI conjI)
  assume h: "try_block a (attempt_env_of e k) = CalledProcessError (Text m) \<and> is_429 m \<and>
   rate_limit_wait (attempt_env_of e k) st = Inr st0"
  then show "limiter (snd (attempt_body a e k st)) =
       record_429 (now_429_stamp (attempt_env_of e k)) (now_429_backoff (attempt_env_of e k))
         (limiter st)"
    using body_429(1) by blast
  assume "ip_rotation_needed (record_429 (now_429_stamp (attempt_env_of e k))
         (now_429_backoff (attempt_env_of e k)) (limiter st))"
  with h have "attempt_body a e k st =
           (Return (Inr (failed_result a e (str ''Rate limited - IP rotation needed'')
                     (now_return (attempt_env_of e k)) (n_retries st + 1)
                     (tor_ip (attempt_env_of e k)) (stamp (attempt_env_of e k)))),
            st0\<lparr>tries := tries st + 1, n_retries := n_retries st + 1,
                limiter := record_429 (now_429_stamp (attempt_env_of e k))
                  (now_429_backoff (attempt_env_of e k)) (limiter st)\<rparr>)"
    using body_429(2) by blast
  then show "\<exists>r st'. for_attempts a e (k # ks) st = (Inr r, st') \<and>
           status r = Failed \<and> error r = Some (str ''Rate limited - IP rotation needed'') \<and>
           tries st' = tries st + 1 \<and> slept st' = slept st0 \<and>
           limiter st' = record_429 (now_429_stamp (attempt_env_of e k))
             (now_429_backoff (attempt_env_of e k)) (limiter st)"
    by (simp add: failed_result_def)
qed

lemma msg_429: "is_429 (str ''HTTP Error 429: Too Many Requests'')"
  by (simp add: is_429_def str_def)

theorem rate_limited_records_and_stops_witness:
  "\<exists>r st'. download_video audio_only
       (env_with (CalledProcessError (Text (str ''HTTP Error 429: Too Many Requests''))))
       throttled_twice = (Inr r, st') \<and>
     status r = Failed \<and> error r = Some (str ''Rate limited - IP rotation needed'') \<and>
     tries st' = 1 \<and> slept st' = [] \<and> ip_rotation_needed (limiter st') \<and>
     consecutive_429s (limiter st') = 3"
proof -
  let ?e = "env_with (CalledProcessError (Text (str ''HTTP Error 429: Too Many Requests'')))"
  have w: "rate_limit_wait (attempt_env_of ?e 0) (initial_state throttled_twice) =
        Inr (initial_state throttled_twice)"
    by (intro rate_limit_wait_idle)
      (simp add: initial_state_def throttled_twice_def env_with_def quiet_def)
  have t: "try_block audio_only (attempt_env_of ?e 0) =
        CalledProcessError (Text (str ''HTTP Error 429: Too Many Requests''))"
    by (rule try_block_env_with) simp
  have r: "record_429 (now_429_stamp (attempt_env_of ?e 0)) (now_429_backoff (attempt_env_of ?e 0))
        (limiter (initial_state throttled_twice)) =
        \<lparr>consecutive_429s = 3, last_429_time = 0, backoff_until = 8, ip_rotation_needed = True\<rparr>"
    by (simp add: record_429_def initial_state_def throttled_twice_def env_with_def quiet_def
        RATE_LIMIT_THRESHOLD_def INITIAL_BACKOFF_def MAX_BACKOFF_def pow2_def Let_def)
  have dv: "download_video audio_only ?e throttled_twice =
      for_attempts audio_only ?e (0 # [Suc 0, 2]) (initial_state throttled_twice)"
    by (simp add: download_video_def upt_retries)
  from rate_limited_records_and_stops [of audio_only ?e 0
      "str ''HTTP Error 429: Too Many Requests''" "initial_state throttled_twice"
      "initial_state throttled_twice" "[Suc 0, 2]"] w t r msg_429
  have "\<exists>r st'. for_attempts audio_only ?e (0 # [Suc 0, 2]) (initial_state throttled_twice) =
          (Inr r, st') \<and>
     status r = Failed \<and> error r = Some (str ''Rate limited - IP rotation needed'') \<and>
     tries st' = tries (initial_state throttled_twice) + 1 \<and>
     slept st' = slept (initial_state throttled_twice) \<and>
     limiter st' = \<lparr>consecutive_429s = 3, last_429_time = 0, backoff_until = 8,
                     ip_rotation_needed = True\<rparr>"
    by (simp del: for_attempts.simps)
  then show ?thesis
    unfolding dv by (auto simp: initial_state_def simp del: for_attempts.simps)
qed


lemma body_continue:
  "attempt_body a e k st = (Continue, st') \<Longrightarrow> k < MAX_RETRIES - 1 \<and> tries st' = tries st + 1"
  by (auto simp: attempt_body_def rate_limit_wait_def should_wait_def on_success_def
      on_called_process_error_def after_429_block_def on_timeout_def on_exception_def Let_def
      split: sum.splits proc_outcome.splits stderr_text.splits prod.splits if_splits)


lemma download_video_cases:
  obtains (first) "attempt_body a e 0 (initial_state rl) =
                    (Return (fst (download_video a e rl)), snd (download_video a e rl))"
  | (second) s0 where "attempt_body a e 0 (initial_state rl) = (Continue, s0)"
      "attempt_body a e 1 s0 = (Return (fst (download_video a e rl)), snd (download_video a e rl))"
  | (third) s0 s1 where "attempt_body a e 0 (initial_state rl) = (Continue, s0)"
      "attempt_body a e 1 s0 = (Continue, s1)"
      "attempt_body a e 2 s1 = (Return (fst (download_video a e rl)), snd (download_video a e rl))"
proof -
  obtain x0 s0 where b0: "attempt_body a e 0 (initial_state rl) = (x0, s0)" by force
  obtain x1 s1 where b1: "attempt_body a e 1 s0 = (x1, s1)" by force
  obtain x2 s2 where b2: "attempt_body a e 2 s1 = (x2, s2)" by force
  have nc: "x2 \<noteq> Continue"
    using body_continue [of a e 2 s1 s2] b2 by (auto simp: MAX_RETRIES_def)
  show thesis
  proof (cases x0)
    case (Return r)
    with b0 show ?thesis by (intro first) (simp add: download_video_def upt_retries)
  next
    case c0: Continue
    show ?thesis
    proof (cases x1)
      case (Return r)
      with b0 b1 c0 show ?thesis
        by (intro second [of s0]) (simp_all add: download_video_def upt_retries)
    next
      case c1: Continue
      from nc obtain r where "x2 = Return r" by (cases x2) auto
      with b0 b1 b2 c0 c1 show ?thesis
        by (intro third [of s0 s1]) (simp_all add: download_video_def upt_retries)
    qed
  qed
qed





section \<open>Properties of the worker and the endpoints\<close>

text \<open>
  For a request that passed validation the resolution never gives the empty list: a
  search either returns the first non-empty answer or raises. The branch of the worker
  that sets \<open>No videos found\<close> is therefore not reached.
\<close>

lemma search_no_hits:
  "search_youtube no_hits k = Inl (PyException (str ''All search methods failed''))"
  by (simp add: search_youtube_def no_hits_def)

lemma try_methods_nonempty:
  "1 \<le> k \<Longrightarrow> try_methods ms k \<noteq> Inr []"
  by (induction ms) (auto simp: slice_to_def split: option.splits)

lemma search_youtube_nonempty: "1 \<le> k \<Longrightarrow> search_youtube se k \<noteq> Inr []"
  unfolding search_youtube_def by (rule try_methods_nonempty)

lemma resolve_never_empty:
  assumes "valid_request req"
  shows "resolve env req job \<noteq> Inr ([], j)"
proof -
  from assms have "search_youtube (search env) (req_max_results req) \<noteq> Inr []"
    by (intro search_youtube_nonempty) (simp add: valid_request_def)
  then show ?thesis
    by (auto simp: resolve_def resolve_query_def Let_def split: option.splits sum.splits)
qed

text \<open>
  C8, evaluated on a search that finds nothing: every lookup returns the empty list for
  a valid request. The job ends failed with progress 0 and no pool is started, but the
  message is the one of the exception handler, \<open>Error: All search methods failed\<close>, not
  \<open>No videos found\<close>.
\<close>

theorem empty_search_message:
  "valid_request search_request \<and>
   out_job (download_worker calm_env search_request (new_job (str ''id'') (str ''q'') 0)) =
     (new_job (str ''id'') (str ''q'') 0)
       \<lparr>job_status := JobFailed, message := str ''Error: All search methods failed''\<rparr> \<and>
   str ''Error: All search methods failed'' \<noteq> str ''No videos found'' \<and>
   pool_workers (download_worker calm_env search_request (new_job (str ''id'') (str ''q'') 0)) = None"
proof -
  have v: "valid_request search_request"
    by (simp add: valid_request_def search_request_def str_def)
  have r: "resolve calm_env search_request j =
        Inl (PyException (str ''All search methods failed''),
             j\<lparr>message := str ''Searching for videos...''\<rparr>)" for j
    by (simp add: resolve_def resolve_query_def search_request_def calm_env_def search_no_hits)
  have m: "msg_error (PyException (str ''All search methods failed'')) =
        str ''Error: All search methods failed''"
    by (simp add: msg_error_def slice_to_def str_def)
  have w: "download_worker calm_env search_request (new_job (str ''id'') (str ''q'') 0) =
     \<lparr>out_job = (new_job (str ''id'') (str ''q'') 0)
         \<lparr>job_status := JobFailed, message := str ''Error: All search methods failed''\<rparr>,
      pool_workers = None, submitted = [], flag_resets = [], saved_log = None\<rparr>"
    by (simp add: download_worker_def r on_fatal_def m Let_def new_job_def)
  have ne: "str ''Error: All search methods failed'' \<noteq> str ''No videos found''"
    by (simp add: str_def)
  from v w ne show ?thesis by simp
qed

subsection \<open>Counters of a job\<close>




text \<open>
  What \<open>download_video\<close> returns has status \<open>success\<close> or \<open>failed\<close>, never \<open>skipped\<close>, so
  the futures of the worker satisfy \<open>from_download\<close>; and the job that the worker picks
  up is the one \<open>api_download\<close> stored.
\<close>

lemma body_status:
  "attempt_body a e k st = (Return (Inr r), st') \<Longrightarrow> status r \<noteq> Skipped"
  by (auto simp: attempt_body_def on_success_def
      on_called_process_error_def after_429_block_def on_timeout_def on_exception_def Let_def
      failed_result_def
      split: sum.splits proc_outcome.splits stderr_text.splits if_splits)

lemma download_video_status:
  "fst (download_video a e rl) = Inr r \<Longrightarrow> status r \<noteq> Skipped"
  by (cases rule: download_video_cases [of a e rl]) (auto dest: body_status)

lemma api_download_stores:
  "api_download jobs req new_id now = Inr jobs' \<Longrightarrow>
     jobs' new_id = Some (new_job new_id (req_query req) now)"
  by (auto simp: api_download_def split: if_splits)












subsection \<open>Size of the pool\<close>








subsection \<open>Polling a finished job\<close>





subsection \<open>The progress endpoint\<close>






end
